theory Spec2Isabelle
  imports Complex_Main "HOL-Library.AList" "HOL-Library.Sublist"
begin

section \<open>Covid2019-API: acquisition, normalisation, country lookup, cache and routes\<close>

text \<open>
  The development follows \<^verbatim>\<open>app/utils/get_data.py\<close> and \<^verbatim>\<open>app/main.py\<close>.
  Remote resources, the facade classes of \<^verbatim>\<open>models/\<close>, the \<^verbatim>\<open>pycountry\<close>
  table, \<^verbatim>\<open>pickle\<close> and the Redis store are outside these two files; every
  function below takes what it reads from them as an argument.
\<close>

subsection \<open>Python exceptions\<close>

text \<open>
  An exception object: whether its class derives from \<^verbatim>\<open>Exception\<close> (a
  \<^verbatim>\<open>KeyboardInterrupt\<close> or \<^verbatim>\<open>SystemExit\<close> does not), the name of its class, and the
  text \<^verbatim>\<open>str(e)\<close>.
\<close>

datatype exn = Exn (under_Exception: bool) (exn_class: string) (exn_text: string)

abbreviation KeyError :: "string \<Rightarrow> exn" where
  "KeyError key \<equiv> Exn True ''KeyError'' key"

abbreviation ValueError :: "string \<Rightarrow> exn" where
  "ValueError msg \<equiv> Exn True ''ValueError'' msg"


abbreviation OverflowError :: "string \<Rightarrow> exn" where
  "OverflowError msg \<equiv> Exn True ''OverflowError'' msg"

subsection \<open>Locating the latest daily report (\<^verbatim>\<open>get_data_daily_reports\<close>, lines 33-41)\<close>

text \<open>
  A calendar date is the number of days since 0001-01-01, the earliest date Python
  has; \<open>now\<close> is the day of \<^verbatim>\<open>datetime.utcnow()\<close>, read as one fixed day for the
  whole call. The environment is \<open>status_code\<close>: the HTTP status that
  \<^verbatim>\<open>requests.get\<close> answers for the daily-report URL of a day.

  \<^verbatim>\<open>
  current_datetime = datetime.utcnow().strftime('%m-%d-%Y')
  base_url = ...format(current_datetime)
  time_delta = 1
  while(requests.get(base_url).status_code == 404):
      current_datetime = datetime.strftime(datetime.utcnow() - timedelta(time_delta), '%m-%d-%Y')
      base_url = ...format(current_datetime)
      time_delta += 1
  \<close>

  The loop has no bound of its own. \<^verbatim>\<open>datetime.utcnow() - timedelta(time_delta)\<close>
  raises \<^verbatim>\<open>OverflowError\<close> when the day would fall before 0001-01-01, which ends the
  loop on an environment where every day answers 404.
\<close>

function probe_loop :: "(nat \<Rightarrow> nat) \<Rightarrow> nat \<Rightarrow> nat \<Rightarrow> nat \<Rightarrow> exn + nat" where
  "probe_loop status_code now current_datetime time_delta =
     (if status_code current_datetime = 404
      then (if now < time_delta then Inl (OverflowError ''date value out of range'')
            else probe_loop status_code now (now - time_delta) (time_delta + 1))
      else Inr current_datetime)"
  by pat_completeness auto
termination
  by (relation "measure (\<lambda>(status_code, now, current_datetime, time_delta). now + 1 - time_delta)")
     auto

definition locate_daily_report :: "(nat \<Rightarrow> nat) \<Rightarrow> nat \<Rightarrow> exn + nat" where
  "locate_daily_report status_code now = probe_loop status_code now now 1"

text \<open>
  What claim C5 says of the outcome when no day has a report: the call fails with
  \<^verbatim>\<open>UpstreamNotFound\<close>.
\<close>

definition fails_with_UpstreamNotFound :: "exn + nat \<Rightarrow> bool" where
  "fails_with_UpstreamNotFound outcome =
     (case outcome of Inl e \<Rightarrow> exn_class e = ''UpstreamNotFound'' | Inr d \<Rightarrow> False)"

subsection \<open>Data frames\<close>

text \<open>
  A cell of a table read by \<^verbatim>\<open>pd.read_csv\<close>: missing (\<open>NaN\<close>), an integer, a finite
  float (its exact value, a rational), an infinite float (with its sign), or text. A data frame is the
  list of its columns in order, each a name and the cells of the column from the first
  row to the last.
\<close>

datatype cell = NaN | IntC int | FloatC rat | InfC bool | StrC string

type_synonym dataframe = "(string \<times> cell list) list"

definition nrows :: "dataframe \<Rightarrow> nat" where
  "nrows df = (case df of [] \<Rightarrow> 0 | (name, cs) # rest \<Rightarrow> length cs)"

text \<open>\<^verbatim>\<open>df[names]\<close> raises \<^verbatim>\<open>KeyError\<close> unless every name is a column.\<close>

definition has_columns :: "string list \<Rightarrow> dataframe \<Rightarrow> bool" where
  "has_columns names df = list_all (\<lambda>name. map_of df name \<noteq> None) names"

text \<open>\<^verbatim>\<open>df[names] = df[names].op(...)\<close> for an operation that works cell by cell.\<close>

definition on_columns :: "string list \<Rightarrow> (cell \<Rightarrow> cell) \<Rightarrow> dataframe \<Rightarrow> dataframe" where
  "on_columns names f df =
     map (\<lambda>(name, cs). if name \<in> set names then (name, map f cs) else (name, cs)) df"

text \<open>\<^verbatim>\<open>.fillna(0)\<close> and \<^verbatim>\<open>.replace('', 0)\<close> on one cell.\<close>

fun fillna :: "cell \<Rightarrow> cell" where
  "fillna NaN = IntC 0"
| "fillna c = c"

fun replace_empty :: "cell \<Rightarrow> cell" where
  "replace_empty (StrC s) = (if s = [] then IntC 0 else StrC s)"
| "replace_empty c = c"

text \<open>
  \<^verbatim>\<open>.astype(int)\<close> on one cell; \<^verbatim>\<open>int\<close> is NumPy's 64-bit integer.
  \<^item> An integer cell (of an int64 or uint64 column) is reinterpreted in 64 bits: a value
    from \<open>2^63\<close> on wraps around to a negative one.
  \<^item> A finite float is truncated toward zero; outside the 64-bit range the conversion
    gives \<open>-2^63\<close> (the result of the machine conversion on x86-64).
  \<^item> A missing value and an infinite float cannot be converted (\<^verbatim>\<open>ValueError\<close>).
  \<^item> Text goes through Python's \<^verbatim>\<open>int(s)\<close>, which is the argument \<open>py_int\<close>
    (\<open>None\<close> where \<^verbatim>\<open>int(s)\<close> raises \<^verbatim>\<open>ValueError\<close>); a result outside the 64-bit
    range raises \<^verbatim>\<open>OverflowError\<close>.
\<close>

definition in_int64 :: "int \<Rightarrow> bool" where
  "in_int64 n = (- (2 ^ 63) \<le> n \<and> n < 2 ^ 63)"

definition wrap64 :: "int \<Rightarrow> int" where
  "wrap64 n = (n + 2 ^ 63) mod 2 ^ 64 - 2 ^ 63"

definition trunc_toward_zero :: "rat \<Rightarrow> int" where
  "trunc_toward_zero q = (if 0 \<le> q then \<lfloor>q\<rfloor> else \<lceil>q\<rceil>)"

definition float_to_int64 :: "rat \<Rightarrow> int" where
  "float_to_int64 q =
     (if in_int64 (trunc_toward_zero q) then trunc_toward_zero q else - (2 ^ 63))"

fun astype_int :: "(string \<Rightarrow> int option) \<Rightarrow> cell \<Rightarrow> cell option" where
  "astype_int py_int NaN = None"
| "astype_int py_int (IntC n) = Some (IntC (wrap64 n))"
| "astype_int py_int (FloatC q) = Some (IntC (float_to_int64 q))"
| "astype_int py_int (InfC positive) = None"
| "astype_int py_int (StrC s) =
     (case py_int s of
        None \<Rightarrow> None
      | Some n \<Rightarrow> if in_int64 n then Some (IntC n) else None)"

definition astype_columns ::
  "(string \<Rightarrow> int option) \<Rightarrow> string list \<Rightarrow> dataframe \<Rightarrow> dataframe option" where
  "astype_columns py_int names df =
     those (map (\<lambda>(name, cs).
                   if name \<in> set names
                   then map_option (Pair name) (those (map (astype_int py_int) cs))
                   else Some (name, cs)) df)"

subsection \<open>Pre-processing of the daily report (\<^verbatim>\<open>get_data_daily_reports\<close>, lines 46-53)\<close>

text \<open>
  \<^verbatim>\<open>
  concerned_columns = ['Confirmed', 'Deaths', 'Recovered', 'Active']
  df[concerned_columns] = df[concerned_columns].fillna(0)
  df[concerned_columns] = df[concerned_columns].replace('', 0)
  df[concerned_columns] = df[concerned_columns].astype(int)
  df['Last_Update'] = current_datetime
  \<close>
  A conversion that raises is the one failure \<^verbatim>\<open>ValueError\<close> here, whichever of
  \<^verbatim>\<open>ValueError\<close> and \<^verbatim>\<open>OverflowError\<close> Python raises.
\<close>

definition concerned_columns :: "string list" where
  "concerned_columns = [''Confirmed'', ''Deaths'', ''Recovered'', ''Active'']"

definition data_preprocessing ::
  "(string \<Rightarrow> int option) \<Rightarrow> string \<Rightarrow> dataframe \<Rightarrow> exn + dataframe" where
  "data_preprocessing py_int current_datetime df =
     (if \<not> has_columns concerned_columns df then Inl (KeyError ''concerned_columns'')
      else
        let df1 = on_columns concerned_columns fillna df;
            df2 = on_columns concerned_columns replace_empty df1
        in case astype_columns py_int concerned_columns df2 of
             None \<Rightarrow> Inl (ValueError ''astype'')
           | Some df3 \<Rightarrow>
               Inr (AList.update ''Last_Update''
                      (replicate (nrows df3) (StrC current_datetime)) df3))"

text \<open>
  The whole function: the probe loop, \<^verbatim>\<open>pd.read_csv\<close> of the day found
  (\<open>read_csv\<close>), and the pre-processing stamped with that day formatted by
  \<^verbatim>\<open>'%m-%d-%Y'\<close> (\<open>strftime\<close>).
\<close>

definition get_data_daily_reports ::
  "(string \<Rightarrow> int option) \<Rightarrow> (nat \<Rightarrow> string) \<Rightarrow> (nat \<Rightarrow> nat) \<Rightarrow> (nat \<Rightarrow> dataframe)
     \<Rightarrow> nat \<Rightarrow> exn + dataframe" where
  "get_data_daily_reports py_int strftime status_code read_csv now =
     (case locate_daily_report status_code now of
        Inl e \<Rightarrow> Inl e
      | Inr d \<Rightarrow> data_preprocessing py_int (strftime d) (read_csv d))"

text \<open>
  The property of claim C3 as a test on a frame: each of the four columns is there
  and each of its cells is a non-negative integer.
\<close>

fun nonneg_int_cell :: "cell \<Rightarrow> bool" where
  "nonneg_int_cell (IntC n) = (0 \<le> n)"
| "nonneg_int_cell c = False"

definition numeric_columns_nonneg :: "dataframe \<Rightarrow> bool" where
  "numeric_columns_nonneg df =
     list_all (\<lambda>name. case map_of df name of None \<Rightarrow> False
                       | Some cs \<Rightarrow> list_all nonneg_int_cell cs) concerned_columns"



subsection \<open>The lookup table (\<^verbatim>\<open>get_data_lookup_table\<close>)\<close>

text \<open>
  \<^verbatim>\<open>
  lookup_df = pd.read_csv(lookup_table_url)[['iso2', 'Country_Region']]
  data = lookup_df.to_dict('records')
  data = {v['iso2']: v['Country_Region'] for v in data}
  \<close>
  The argument is the table read; selecting the two columns raises \<^verbatim>\<open>KeyError\<close>
  when one is absent. \<^verbatim>\<open>to_dict('records')\<close> gives the rows in table order, here the
  pairs of the two cells of a row. The comprehension stores the rows one after the
  other into a dictionary, which is an association list in insertion order; storing
  under a key already there replaces its value in place.

  Two keys of a Python dictionary are the same key when they are the same object or
  compare equal. Text compares by its characters and numbers by their value. A missing
  cell is a float \<^verbatim>\<open>nan\<close>, which is unequal to every float and to itself: two missing
  cells are the same key only when they are the same object. \<open>nan_id i\<close> is the
  identity of the \<^verbatim>\<open>nan\<close> object that \<^verbatim>\<open>to_dict('records')\<close> gives for row \<open>i\<close> of the
  iso2 column (for a float64 column, a new object for every row).
\<close>

datatype dict_key = NanKey nat | NumKey rat | InfKey bool | StrKey string

fun py_key :: "nat \<Rightarrow> cell \<Rightarrow> dict_key" where
  "py_key object_id NaN = NanKey object_id"
| "py_key object_id (IntC n) = NumKey (of_int n)"
| "py_key object_id (FloatC q) = NumKey q"
| "py_key object_id (InfC positive) = InfKey positive"
| "py_key object_id (StrC s) = StrKey s"

definition to_records :: "(nat \<Rightarrow> nat) \<Rightarrow> cell list \<Rightarrow> cell list \<Rightarrow> (dict_key \<times> cell) list" where
  "to_records nan_id iso2 country_region =
     map (\<lambda>(i, k, v). (py_key (nan_id i) k, v))
       (zip [0..<length iso2] (zip iso2 country_region))"

definition dict_of_records :: "('k \<times> 'v) list \<Rightarrow> ('k \<times> 'v) list" where
  "dict_of_records records = foldl (\<lambda>data (k, v). AList.update k v data) [] records"

definition get_data_lookup_table ::
  "(nat \<Rightarrow> nat) \<Rightarrow> dataframe \<Rightarrow> exn + (dict_key \<times> cell) list" where
  "get_data_lookup_table nan_id df =
     (case map_of df ''iso2'' of
        None \<Rightarrow> Inl (KeyError ''iso2'')
      | Some iso2 \<Rightarrow>
          (case map_of df ''Country_Region'' of
             None \<Rightarrow> Inl (KeyError ''Country_Region'')
           | Some country_region \<Rightarrow>
               Inr (dict_of_records (to_records nan_id iso2 country_region))))"

text \<open>
  What claim C10 says of the keys: the dictionary has one key for each different cell
  of the iso2 column, missing cells counted as one value.
\<close>

definition one_key_per_iso2_value :: "cell list \<Rightarrow> (dict_key \<times> cell) list \<Rightarrow> bool" where
  "one_key_per_iso2_value iso2 data = (length data = length (remdups iso2))"

subsection \<open>Strings\<close>

text \<open>
  \<^verbatim>\<open>str.lower()\<close> on ASCII text (other characters are left as they are),
  \<^verbatim>\<open>a in b\<close> on strings, and \<^verbatim>\<open>s.split(sep)\<close> for a one-character separator.
\<close>

definition lower_char :: "char \<Rightarrow> char" where
  "lower_char c =
     (case map_of (zip ''ABCDEFGHIJKLMNOPQRSTUVWXYZ'' ''abcdefghijklmnopqrstuvwxyz'') c of
        None \<Rightarrow> c
      | Some l \<Rightarrow> l)"

definition lower :: "string \<Rightarrow> string" where
  "lower s = map lower_char s"

fun str_in :: "string \<Rightarrow> string \<Rightarrow> bool" where
  "str_in a [] = (a = [])"
| "str_in a (c # cs) = (prefix a (c # cs) \<or> str_in a cs)"

fun split :: "char \<Rightarrow> string \<Rightarrow> string list" where
  "split sep [] = [[]]"
| "split sep (c # cs) =
     (if c = sep then [] # split sep cs
      else (case split sep cs of [] \<Rightarrow> [[c]] | w # ws \<Rightarrow> (c # w) # ws))"

text \<open>\<^verbatim>\<open>xs[0]\<close> and \<^verbatim>\<open>xs[-1]\<close>: \<^verbatim>\<open>IndexError\<close> on the empty list.\<close>

definition first_item :: "'a list \<Rightarrow> exn + 'a" where
  "first_item xs = (case xs of [] \<Rightarrow> Inl (Exn True ''IndexError'' []) | x # rest \<Rightarrow> Inr x)"

definition last_item :: "'a list \<Rightarrow> exn + 'a" where
  "last_item xs = (if xs = [] then Inl (Exn True ''IndexError'' []) else Inr (last xs))"

subsection \<open>Country lookup (\<^verbatim>\<open>lookup_country\<close>)\<close>

text \<open>
  \<^verbatim>\<open>
  country_name = pycountry.countries.lookup(country).name
  if ',' in country_name:
      country_name = country_name.split(',')[0]
  elif ' ' in country_name:
      country_name = country_name.split(' ')[-1]
  return country_name
  \<close>
  \<open>countries_lookup\<close> is the reference table of \<^verbatim>\<open>pycountry\<close>: the name of the
  country found for a code, \<open>None\<close> where \<^verbatim>\<open>lookup\<close> raises \<^verbatim>\<open>LookupError\<close>.
\<close>

definition lookup_country :: "(string \<Rightarrow> string option) \<Rightarrow> string \<Rightarrow> exn + string" where
  "lookup_country countries_lookup country =
     (case countries_lookup country of
        None \<Rightarrow> Inl (Exn True ''LookupError'' country)
      | Some country_name \<Rightarrow>
          if CHR '','' \<in> set country_name then first_item (split CHR '','' country_name)
          else if CHR '' '' \<in> set country_name then last_item (split CHR '' '' country_name)
          else Inr country_name)"

subsection \<open>Values returned by the facades, and failures of a route\<close>

datatype pyval =
    PNone
  | PStr string
  | PInt int
  | PList "pyval list"
  | PDict "(string \<times> pyval) list"

type_synonym dict = "(string \<times> pyval) list"

text \<open>
  \<^verbatim>\<open>HTTPException(status_code, detail)\<close>: the detail is whatever object the handler
  passes, a string or an exception object. A handler fails with an \<^verbatim>\<open>HTTPException\<close>
  or with an exception nothing caught.
\<close>

datatype detail = Text string | Object exn

datatype failure = HTTPException nat detail | Uncaught exn

text \<open>
  The status the client receives. The framework answers an \<^verbatim>\<open>HTTPException\<close> with
  the JSON of \<^verbatim>\<open>{"detail": detail}\<close> under the exception's status; an exception object
  as the detail cannot be serialized (\<^verbatim>\<open>json.dumps\<close> raises \<^verbatim>\<open>TypeError\<close>), and that,
  like any exception nothing caught, is answered with status 500.
\<close>

definition http_status :: "failure + 'a \<Rightarrow> nat" where
  "http_status outcome =
     (case outcome of
        Inr data \<Rightarrow> 200
      | Inl (HTTPException status (Text message)) \<Rightarrow> status
      | Inl (HTTPException status (Object e)) \<Rightarrow> 500
      | Inl (Uncaught e) \<Rightarrow> 500)"

subsection \<open>API v2: the routes that forward a facade call\<close>

text \<open>
  The facade \<^verbatim>\<open>NovelCoronaAPIv2\<close> is not part of the two files. A facade is what
  each of its methods does when called: return a value or raise.
\<close>

record facade_v2 =
  api_get_current :: "exn + pyval"
  api_get_total :: "exn + pyval"
  api_get_confirmed :: "exn + pyval"
  api_get_deaths :: "exn + pyval"
  api_get_recovered :: "exn + pyval"
  api_get_active :: "exn + pyval"
  api_get_time_series :: "string \<Rightarrow> exn + pyval"

text \<open>
  \<^verbatim>\<open>
  try:
      data = novel_corona_api_v2.get_current()
  except Exception as e:
      raise HTTPException(status_code=400, detail=e)
  return data
  \<close>
  \<^verbatim>\<open>except Exception\<close> catches the instances of \<^verbatim>\<open>Exception\<close> only.
\<close>

definition get_current :: "facade_v2 \<Rightarrow> failure + pyval" where
  "get_current novel_corona_api_v2 =
     (case api_get_current novel_corona_api_v2 of
        Inl e \<Rightarrow> if under_Exception e then Inl (HTTPException 400 (Object e)) else Inl (Uncaught e)
      | Inr data \<Rightarrow> Inr data)"

definition get_total :: "facade_v2 \<Rightarrow> failure + pyval" where
  "get_total novel_corona_api_v2 =
     (case api_get_total novel_corona_api_v2 of
        Inl e \<Rightarrow> if under_Exception e then Inl (HTTPException 400 (Object e)) else Inl (Uncaught e)
      | Inr data \<Rightarrow> Inr data)"

definition get_confirmed :: "facade_v2 \<Rightarrow> failure + pyval" where
  "get_confirmed novel_corona_api_v2 =
     (case api_get_confirmed novel_corona_api_v2 of
        Inl e \<Rightarrow> if under_Exception e then Inl (HTTPException 400 (Object e)) else Inl (Uncaught e)
      | Inr data \<Rightarrow> Inr data)"

definition get_deaths :: "facade_v2 \<Rightarrow> failure + pyval" where
  "get_deaths novel_corona_api_v2 =
     (case api_get_deaths novel_corona_api_v2 of
        Inl e \<Rightarrow> if under_Exception e then Inl (HTTPException 400 (Object e)) else Inl (Uncaught e)
      | Inr data \<Rightarrow> Inr data)"

definition get_recovered :: "facade_v2 \<Rightarrow> failure + pyval" where
  "get_recovered novel_corona_api_v2 =
     (case api_get_recovered novel_corona_api_v2 of
        Inl e \<Rightarrow> if under_Exception e then Inl (HTTPException 400 (Object e)) else Inl (Uncaught e)
      | Inr data \<Rightarrow> Inr data)"

definition get_active :: "facade_v2 \<Rightarrow> failure + pyval" where
  "get_active novel_corona_api_v2 =
     (case api_get_active novel_corona_api_v2 of
        Inl e \<Rightarrow> if under_Exception e then Inl (HTTPException 400 (Object e)) else Inl (Uncaught e)
      | Inr data \<Rightarrow> Inr data)"

text \<open>
  What claim C9 says of a handler: it fails with status 400 and the text of the
  exception as the detail.
\<close>

definition fails_400_with_text :: "failure + pyval \<Rightarrow> exn \<Rightarrow> bool" where
  "fails_400_with_text response e = (response = Inl (HTTPException 400 (Text (exn_text e))))"

subsection \<open>API v2: country (\<^verbatim>\<open>get_country\<close>)\<close>

text \<open>
  \<^verbatim>\<open>i.get("location").lower()\<close>: \<open>None\<close> where it raises (the item is no
  dictionary, or has no location, or the location is no string).
\<close>

definition location_lower :: "pyval \<Rightarrow> string option" where
  "location_lower i =
     (case i of
        PDict d \<Rightarrow> (case map_of d ''location'' of Some (PStr s) \<Rightarrow> Some (lower s) | _ \<Rightarrow> None)
      | _ \<Rightarrow> None)"

text \<open>
  The list comprehension \<^verbatim>\<open>[i for i in items if cond(i)]\<close>, where the condition may
  raise (\<open>None\<close>), which ends the comprehension.
\<close>

fun select_where :: "(pyval \<Rightarrow> bool option) \<Rightarrow> pyval list \<Rightarrow> pyval list option" where
  "select_where cond [] = Some []"
| "select_where cond (i # rest) =
     (case cond i of
        None \<Rightarrow> None
      | Some b \<Rightarrow>
          (case select_where cond rest of
             None \<Rightarrow> None
           | Some r \<Rightarrow> Some (if b then i # r else r)))"

text \<open>
  \<^verbatim>\<open>
  raw_data = novel_corona_api_v2.get_current()
  try:
      if country_name.lower() not in ['us', 'uk'] and len(country_name) in [2]:
          country_name = lookup_country(country_name)
          data = [i for i in raw_data['data'] if country_name.lower() in i.get("location").lower()]
      else:
          data = [i for i in raw_data['data'] if country_name.lower() == i.get("location").lower()]
      raw_data['data'] = data[0]
  except:
      raise HTTPException(status_code=404, detail="Item not found")
  return raw_data
  \<close>
  \<open>raw_data\<close> is the dictionary the facade returned. Inside the \<^verbatim>\<open>try\<close> every
  exception has the same effect, so the body is an \<open>option\<close>. A value under
  \<^verbatim>\<open>'data'\<close> that is no list either cannot be iterated, or gives items without
  \<^verbatim>\<open>get\<close>, or gives no item at all, and the body raises in each case.
\<close>

definition get_country :: "(string \<Rightarrow> string option) \<Rightarrow> dict \<Rightarrow> string \<Rightarrow> failure + dict" where
  "get_country countries_lookup raw_data country_name =
     (let data =
        (if lower country_name \<notin> set [''us'', ''uk''] \<and> length country_name \<in> set [2]
         then (case lookup_country countries_lookup country_name of
                 Inl e \<Rightarrow> None
               | Inr country_name' \<Rightarrow>
                   (case map_of raw_data ''data'' of
                      Some (PList items) \<Rightarrow>
                        select_where
                          (\<lambda>i. map_option (str_in (lower country_name')) (location_lower i)) items
                    | _ \<Rightarrow> None))
         else (case map_of raw_data ''data'' of
                 Some (PList items) \<Rightarrow>
                   select_where
                     (\<lambda>i. map_option (\<lambda>loc. lower country_name = loc) (location_lower i)) items
               | _ \<Rightarrow> None))
      in case data of
           Some (first # rest) \<Rightarrow> Inr (AList.update ''data'' first raw_data)
         | _ \<Rightarrow> Inl (HTTPException 404 (Text ''Item not found'')))"

text \<open>
  What claim C2 says of a response: its \<^verbatim>\<open>data\<close> field is an array of records that
  each carry a location.
\<close>

definition has_location :: "pyval \<Rightarrow> bool" where
  "has_location i = (case i of PDict d \<Rightarrow> map_of d ''location'' \<noteq> None | _ \<Rightarrow> False)"

definition data_is_array_of_records :: "dict \<Rightarrow> bool" where
  "data_is_array_of_records response =
     (case map_of response ''data'' of
        Some (PList items) \<Rightarrow> list_all has_location items
      | _ \<Rightarrow> False)"

subsection \<open>API v2: time series (\<^verbatim>\<open>get_time_series\<close>)\<close>


subsection \<open>API v1: country and time series\<close>

text \<open>
  \<^verbatim>\<open>
  raw_data = novel_corona_api.get_current_status()
  try:
      if country_name.lower() not in ['us', 'uk'] and len(country_name) in [2]:
          country_name = lookup_country(country_name)
          data = {k: v for k, v in raw_data.items() if country_name.lower() in k.lower()}
      else:
          data = {k: v for k, v in raw_data.items() if country_name.lower() == k.lower()}
      data['dt'] = raw_data['dt']
      data['ts'] = raw_data['ts']
  except:
      raise HTTPException(status_code=404, detail="Item not found")
  return data
  \<close>
  \<open>raw_data\<close> is the dictionary the v1 facade returned: its items in order, the
  keys distinct.
\<close>

definition country :: "(string \<Rightarrow> string option) \<Rightarrow> dict \<Rightarrow> string \<Rightarrow> failure + dict" where
  "country countries_lookup raw_data country_name =
     (let data =
        (if lower country_name \<notin> set [''us'', ''uk''] \<and> length country_name \<in> set [2]
         then (case lookup_country countries_lookup country_name of
                 Inl e \<Rightarrow> None
               | Inr country_name' \<Rightarrow>
                   Some (filter (\<lambda>(k, v). str_in (lower country_name') (lower k)) raw_data))
         else Some (filter (\<lambda>(k, v). lower country_name = lower k) raw_data))
      in case data of
           None \<Rightarrow> Inl (HTTPException 404 (Text ''Item not found''))
         | Some data \<Rightarrow>
             (case map_of raw_data ''dt'' of
                None \<Rightarrow> Inl (HTTPException 404 (Text ''Item not found''))
              | Some dt \<Rightarrow>
                  (case map_of raw_data ''ts'' of
                     None \<Rightarrow> Inl (HTTPException 404 (Text ''Item not found''))
                   | Some ts \<Rightarrow> Inr (AList.update ''ts'' ts (AList.update ''dt'' dt data)))))"



subsection \<open>The cache of the v2 facade (\<^verbatim>\<open>reload_model_api_v2\<close>)\<close>

text \<open>
  The Redis store: under a key, a value (bytes) and the time in seconds at which it
  expires. \<^verbatim>\<open>get\<close> at time \<open>t\<close> answers the value as long as \<open>t\<close> is not past the
  expiry (Redis drops a key once the clock is greater than its expiry),
  \<^verbatim>\<open>setex\<close> at time \<open>t\<close> stores a value that expires \<open>seconds\<close> later.
\<close>

type_synonym redis_db = "string \<rightharpoonup> (string \<times> nat)"




text \<open>
  The state the wrapper works on: the store, the global \<^verbatim>\<open>novel_corona_api_v2\<close>, and
  a count of the calls of the constructor \<^verbatim>\<open>NovelCoronaAPIv2()\<close>.
\<close>

record 'm server =
  redis :: redis_db
  novel_corona_api_v2 :: "'m option"
  builds :: nat




subsection \<open>Facts about the probe loop\<close>

lemma probe_loop_found:
  assumes "sc (now - k) \<noteq> 404" and "k \<le> now"
    and "\<forall>j. td \<le> j + 1 \<and> j < k \<longrightarrow> sc (now - j) = 404"
    and "td \<le> k + 1" and "0 < td"
  shows "probe_loop sc now (now - (td - 1)) td = Inr (now - k)"
  using assms
proof (induction "k + 1 - td" arbitrary: td)
  case 0
  then have "td = k + 1" by simp
  with 0 show ?case by (subst probe_loop.simps) simp
next
  case (Suc n)
  then have lt: "td - 1 < k" and ge: "td \<le> (td - 1) + 1" by simp_all
  with Suc.prems(3) have miss: "sc (now - (td - 1)) = 404" by blast
  have inside: "\<not> now < td" using lt Suc.prems(2) by simp
  have "probe_loop sc now (now - ((td + 1) - 1)) (td + 1) = Inr (now - k)"
  proof (rule Suc.hyps(1))
    show "n = k + 1 - (td + 1)" using Suc.hyps(2) by simp
    show "sc (now - k) \<noteq> 404" by (rule Suc.prems(1))
    show "k \<le> now" by (rule Suc.prems(2))
    show "\<forall>j. td + 1 \<le> j + 1 \<and> j < k \<longrightarrow> sc (now - j) = 404"
      using Suc.prems(3) by simp
    show "td + 1 \<le> k + 1" using lt Suc.prems(5) by simp
    show "0 < td + 1" by simp
  qed
  with miss inside show ?case by (subst probe_loop.simps) simp
qed

lemma probe_loop_exhausted:
  assumes "\<forall>d\<le>now. sc d = 404" and "0 < td" and "td \<le> now + 1"
  shows "probe_loop sc now (now - (td - 1)) td = Inl (OverflowError ''date value out of range'')"
  using assms
proof (induction "now + 1 - td" arbitrary: td)
  case 0
  then have "now < td" by simp
  moreover have "sc (now - (td - 1)) = 404" using 0 by simp
  ultimately show ?case by (subst probe_loop.simps) simp
next
  case (Suc n)
  then have inside: "\<not> now < td" by simp
  have miss: "sc (now - (td - 1)) = 404" using Suc.prems(1) by simp
  have "probe_loop sc now (now - ((td + 1) - 1)) (td + 1)
          = Inl (OverflowError ''date value out of range'')"
  proof (rule Suc.hyps(1))
    show "n = now + 1 - (td + 1)" using Suc.hyps(2) by simp
    show "\<forall>d\<le>now. sc d = 404" by (rule Suc.prems(1))
    show "0 < td + 1" by simp
    show "td + 1 \<le> now + 1" using inside by simp
  qed
  with miss inside show ?case by (subst probe_loop.simps) simp
qed

lemma locate_least:
  assumes "sc (now - k) \<noteq> 404" and "k \<le> now" and "\<forall>j<k. sc (now - j) = 404"
  shows "locate_daily_report sc now = Inr (now - k)"
proof -
  have "probe_loop sc now (now - (1 - 1)) 1 = Inr (now - k)"
    using assms by (intro probe_loop_found) simp_all
  then show ?thesis by (simp add: locate_daily_report_def)
qed

lemma locate_all_missing:
  assumes "\<forall>d\<le>now. sc d = 404"
  shows "locate_daily_report sc now = Inl (OverflowError ''date value out of range'')"
proof -
  have "probe_loop sc now (now - (1 - 1)) 1 = Inl (OverflowError ''date value out of range'')"
    using assms by (intro probe_loop_exhausted) simp_all
  then show ?thesis by (simp add: locate_daily_report_def)
qed

lemma locate_some_existing:
  assumes "d0 \<le> now" and "sc d0 \<noteq> 404"
  shows "\<exists>d. locate_daily_report sc now = Inr d \<and> d0 \<le> d \<and> d \<le> now \<and> sc d \<noteq> 404
           \<and> (\<forall>d'. d < d' \<and> d' \<le> now \<longrightarrow> sc d' = 404)"
proof -
  define Q where "Q k \<longleftrightarrow> k \<le> now \<and> sc (now - k) \<noteq> 404" for k
  define k where "k = (LEAST k. Q k)"
  have "Q (now - d0)" using assms by (simp add: Q_def)
  then have Qk: "Q k" and le: "k \<le> now - d0"
    unfolding k_def by (rule LeastI, rule Least_le)
  have below: "\<not> Q j" if "j < k" for j
    using that not_less_Least unfolding k_def by blast
  have kn: "k \<le> now" using Qk by (simp add: Q_def)
  have "\<forall>j<k. sc (now - j) = 404"
  proof (intro allI impI)
    fix j assume "j < k"
    then have "\<not> Q j" by (rule below)
    moreover have "j \<le> now" using \<open>j < k\<close> kn by simp
    ultimately show "sc (now - j) = 404" by (simp add: Q_def)
  qed
  then have res: "locate_daily_report sc now = Inr (now - k)"
    using Qk by (intro locate_least) (simp_all add: Q_def)
  have gap: "sc d' = 404" if "now - k < d'" and "d' \<le> now" for d'
  proof -
    have "now - d' < k" using that by linarith
    then have "\<not> Q (now - d')" by (rule below)
    then show ?thesis using that by (simp add: Q_def)
  qed
  have "d0 \<le> now - k" using le assms(1) by linarith
  with res Qk gap show ?thesis by (auto simp: Q_def)
qed

lemma get_data_daily_reports_returns:
  assumes "d \<le> now" and "status_code d \<noteq> 404"
  shows "\<exists>d'. d \<le> d' \<and> d' \<le> now \<and> status_code d' \<noteq> 404
           \<and> get_data_daily_reports py_int strftime status_code read_csv now
               = data_preprocessing py_int (strftime d') (read_csv d')"
proof -
  from locate_some_existing [of d now status_code, OF assms] obtain d' where
    "locate_daily_report status_code now = Inr d'" "d \<le> d'" "d' \<le> now" "status_code d' \<noteq> 404"
    by blast
  then show ?thesis by (auto simp: get_data_daily_reports_def)
qed

subsection \<open>The date found by the probe loop\<close>

text \<open>
  Claim C4. Whenever some day at or before the reference day has a daily report (its
  URL does not answer 404), the probe loop returns; the day it returns is at or before
  the reference day, its report exists, and every day after it up to the reference day
  answers 404: it is the first existing day walking backward from the reference day.
\<close>

theorem locate_returns_first_existing_day:
  assumes "\<exists>d\<le>now. status_code d \<noteq> 404"
  shows "\<exists>d. locate_daily_report status_code now = Inr d \<and> d \<le> now \<and> status_code d \<noteq> 404
           \<and> (\<forall>d'. d < d' \<and> d' \<le> now \<longrightarrow> status_code d' = 404)"
proof -
  from assms obtain d0 where "d0 \<le> now" and "status_code d0 \<noteq> 404" by blast
  then show ?thesis using locate_some_existing [of d0 now status_code] by blast
qed

text \<open>
  The example of the specification, with 2020-04-01 (day 737515) as the reference
  day: that day answers 404 and the day before exists, so the day returned is the day
  before.
\<close>

theorem locate_returns_first_existing_day_witness:
  "(\<exists>d\<le>737515. (\<lambda>d::nat. if d = 737515 then 404 else 200::nat) d \<noteq> 404)
   \<and> locate_daily_report (\<lambda>d. if d = 737515 then 404 else 200) 737515 = Inr 737514"
proof -
  let ?sc = "\<lambda>d::nat. if d = 737515 then 404 else 200::nat"
  have h: "\<exists>d\<le>737515. ?sc d \<noteq> 404" by (rule exI [of _ 737514]) simp
  from locate_returns_first_existing_day [OF h]
  obtain d where r: "locate_daily_report ?sc 737515 = Inr d" and le: "d \<le> 737515"
    and ex: "?sc d \<noteq> 404"
    and gap: "\<forall>d'. d < d' \<and> d' \<le> 737515 \<longrightarrow> ?sc d' = 404"
    by blast
  from ex have "d \<noteq> 737515" by auto
  moreover have "\<not> d < 737514"
  proof
    assume "d < 737514"
    then have "d < 737514 \<and> (737514::nat) \<le> 737515" by simp
    with gap have "?sc 737514 = 404" by blast
    then show False by simp
  qed
  ultimately have "d = 737514" using le by linarith
  with r h show ?thesis by simp
qed

text \<open>
  Claim C5 (as amended). The loop ends on every environment, but it has no configured
  maximum lookback and no \<^verbatim>\<open>UpstreamNotFound\<close>: it returns a day exactly when some day
  from 0001-01-01 to the reference day does not answer 404, however far back, and when
  every such day answers 404 it fails with the \<^verbatim>\<open>OverflowError\<close> of the date
  arithmetic, the only failure it has.
\<close>

theorem locate_fails_iff_all_missing:
  "(locate_daily_report status_code now = Inl (OverflowError ''date value out of range'')
      \<longleftrightarrow> (\<forall>d\<le>now. status_code d = 404))
   \<and> (\<forall>e. locate_daily_report status_code now = Inl e
          \<longrightarrow> e = OverflowError ''date value out of range'' \<and> (\<forall>d\<le>now. status_code d = 404))
   \<and> (\<forall>d\<le>now. status_code d \<noteq> 404 \<longrightarrow>
          (\<exists>d'. locate_daily_report status_code now = Inr d' \<and> d \<le> d' \<and> d' \<le> now))"
proof -
  have some: "\<exists>d'. locate_daily_report status_code now = Inr d' \<and> d \<le> d' \<and> d' \<le> now"
    if "d \<le> now" and "status_code d \<noteq> 404" for d
    using locate_some_existing [of d now status_code] that by blast
  have fail: "e = OverflowError ''date value out of range'' \<and> (\<forall>d\<le>now. status_code d = 404)"
    if e: "locate_daily_report status_code now = Inl e" for e
  proof -
    have all: "\<forall>d\<le>now. status_code d = 404"
    proof (intro allI impI, rule ccontr)
      fix d assume "d \<le> now" and "status_code d \<noteq> 404"
      from some [OF this] e show False by auto
    qed
    with locate_all_missing [OF all] e show ?thesis by simp
  qed
  have iff: "locate_daily_report status_code now = Inl (OverflowError ''date value out of range'')
      \<longleftrightarrow> (\<forall>d\<le>now. status_code d = 404)"
    using fail locate_all_missing [of now status_code] by blast
  from iff fail some show ?thesis by blast
qed

theorem locate_fails_iff_all_missing_witness:
  "locate_daily_report (\<lambda>d. 404) 737515 = Inl (OverflowError ''date value out of range'')"
proof -
  have h: "\<forall>d\<le>737515. (\<lambda>d::nat. 404::nat) d = 404" by simp
  from locate_fails_iff_all_missing [of "\<lambda>d. 404" 737515] h show ?thesis by blast
qed

text \<open>
  Claim C5 as stated fails: with the only report 700000 days before the reference day
  the loop still finds it, so no lookback bounds the probing; and when every day answers
  404 the failure is not \<^verbatim>\<open>UpstreamNotFound\<close>.
\<close>

theorem locate_lookback_counterexample:
  "locate_daily_report (\<lambda>d. if d = 37515 then 200 else 404) 737515 = Inr 37515
   \<and> \<not> fails_with_UpstreamNotFound (locate_daily_report (\<lambda>d. 404) 737515)"
proof -
  have far: "737515 - j \<noteq> (37515::nat)" if "j < 700000" for j
    using that by linarith
  have "locate_daily_report (\<lambda>d. if d = 37515 then 200 else 404) 737515 = Inr (737515 - 700000)"
  proof (rule locate_least)
    show "(if 737515 - 700000 = (37515::nat) then 200 else 404) \<noteq> (404::nat)" by simp
    show "(700000::nat) \<le> 737515" by simp
    show "\<forall>j<700000. (if 737515 - j = (37515::nat) then 200 else 404) = (404::nat)"
      using far by auto
  qed
  then have a: "locate_daily_report (\<lambda>d. if d = 37515 then 200 else 404) 737515 = Inr 37515"
    by simp
  have "locate_daily_report (\<lambda>d. 404) 737515 = Inl (OverflowError ''date value out of range'')"
    by (rule locate_all_missing) simp
  then have b: "\<not> fails_with_UpstreamNotFound (locate_daily_report (\<lambda>d. 404) 737515)"
    by (simp add: fails_with_UpstreamNotFound_def)
  from a b show ?thesis by (rule conjI)
qed

subsection \<open>Facts about data frames\<close>
















lemma numeric_columns_nonneg_iff:
  "numeric_columns_nonneg df \<longleftrightarrow>
     (\<forall>name\<in>set concerned_columns. \<exists>cs. map_of df name = Some cs \<and> (\<forall>c\<in>set cs. \<exists>n\<ge>0. c = IntC n))"
proof -
  have "nonneg_int_cell c \<longleftrightarrow> (\<exists>n\<ge>0. c = IntC n)" for c by (cases c) auto
  then show ?thesis
    by (auto simp: numeric_columns_nonneg_def list_all_iff split: option.splits)
qed

subsection \<open>The numeric columns after pre-processing\<close>




subsection \<open>Facts about the dictionary built from records\<close>

lemma map_of_foldl_update:
  "map_of (foldl (\<lambda>data (k, v). AList.update k v data) d0 rs) = map_of d0 ++ map_of (rev rs)"
proof (induction rs arbitrary: d0)
  case Nil
  show ?case by simp
next
  case (Cons r rs)
  obtain k v where r: "r = (k, v)" by (cases r)
  have "map_of (AList.update k v d0) ++ map_of (rev rs) = map_of d0 ++ map_of (rev rs @ [(k, v)])"
    by (simp add: update_conv' fun_eq_iff map_add_def split: option.splits)
  with Cons.IH [of "AList.update k v d0"] show ?case by (simp add: r)
qed

lemma keys_foldl_update:
  "fst ` set (foldl (\<lambda>data (k, v). AList.update k v data) d0 rs) = fst ` set d0 \<union> fst ` set rs"
proof (induction rs arbitrary: d0)
  case Nil
  show ?case by simp
next
  case (Cons r rs)
  obtain k v where r: "r = (k, v)" by (cases r)
  from Cons.IH [of "AList.update k v d0"] show ?case by (auto simp: r dom_update)
qed

lemma distinct_foldl_update:
  "distinct (map fst d0) \<Longrightarrow>
   distinct (map fst (foldl (\<lambda>data (k, v). AList.update k v data) d0 rs))"
proof (induction rs arbitrary: d0)
  case Nil
  then show ?case by simp
next
  case (Cons r rs)
  obtain k v where r: "r = (k, v)" by (cases r)
  from Cons.prems have "distinct (map fst (AList.update k v d0))" by (rule distinct_update)
  from Cons.IH [OF this] show ?case by (simp add: r)
qed

lemma map_of_rev_last:
  "map_of (rev rs) k = Some v \<longleftrightarrow>
     (\<exists>i<length rs. rs ! i = (k, v) \<and> (\<forall>j. i < j \<and> j < length rs \<longrightarrow> fst (rs ! j) \<noteq> k))"
proof (induction rs rule: rev_induct)
  case Nil
  show ?case by simp
next
  case (snoc r rs)
  obtain k' v' where r: "r = (k', v')" by (cases r)
  show ?case
  proof (cases "k' = k")
    case True
    have "(\<exists>i<Suc (length rs). (rs @ [(k, v')]) ! i = (k, v) \<and>
            (\<forall>j. i < j \<and> j < Suc (length rs) \<longrightarrow> fst ((rs @ [(k, v')]) ! j) \<noteq> k)) \<longleftrightarrow> v' = v"
      (is "?L \<longleftrightarrow> _")
    proof
      assume ?L
      then obtain i where i: "i < Suc (length rs)" "(rs @ [(k, v')]) ! i = (k, v)"
        and last: "\<forall>j. i < j \<and> j < Suc (length rs) \<longrightarrow> fst ((rs @ [(k, v')]) ! j) \<noteq> k" by blast
      have "i = length rs"
      proof (rule ccontr)
        assume "i \<noteq> length rs"
        with i(1) have "i < length rs" by simp
        then have "i < length rs \<and> length rs < Suc (length rs)" by simp
        with last have "fst ((rs @ [(k, v')]) ! length rs) \<noteq> k" by blast
        then show False by simp
      qed
      with i(2) show "v' = v" by simp
    next
      assume "v' = v"
      then show ?L by (intro exI [of _ "length rs"]) auto
    qed
    with True show ?thesis by (simp add: r)
  next
    case False
    have "(\<exists>i<Suc (length rs). (rs @ [(k', v')]) ! i = (k, v) \<and>
            (\<forall>j. i < j \<and> j < Suc (length rs) \<longrightarrow> fst ((rs @ [(k', v')]) ! j) \<noteq> k)) \<longleftrightarrow>
          (\<exists>i<length rs. rs ! i = (k, v) \<and> (\<forall>j. i < j \<and> j < length rs \<longrightarrow> fst (rs ! j) \<noteq> k))"
      (is "?L \<longleftrightarrow> ?R")
    proof
      assume ?L
      then obtain i where i: "i < Suc (length rs)" "(rs @ [(k', v')]) ! i = (k, v)"
        and last: "\<forall>j. i < j \<and> j < Suc (length rs) \<longrightarrow> fst ((rs @ [(k', v')]) ! j) \<noteq> k" by blast
      have "i \<noteq> length rs" using i(2) False by auto
      with i(1) have il: "i < length rs" by simp
      with i(2) have "rs ! i = (k, v)" by (simp add: nth_append)
      moreover have "fst (rs ! j) \<noteq> k" if "i < j" "j < length rs" for j
        using last that by (auto simp: nth_append dest!: spec [of _ j])
      ultimately show ?R using il by blast
    next
      assume ?R
      then obtain i where il: "i < length rs" and "rs ! i = (k, v)"
        and last: "\<forall>j. i < j \<and> j < length rs \<longrightarrow> fst (rs ! j) \<noteq> k" by blast
      then have "(rs @ [(k', v')]) ! i = (k, v)" by (simp add: nth_append)
      moreover have "fst ((rs @ [(k', v')]) ! j) \<noteq> k" if "i < j" "j < Suc (length rs)" for j
        using last that False by (cases "j = length rs") (auto simp: nth_append)
      ultimately show ?L using il by (intro exI [of _ i]) simp
    qed
    with False snoc.IH show ?thesis by (simp add: r)
  qed
qed

subsection \<open>The lookup table as a dictionary\<close>

lemma to_records_nth:
  assumes "length iso2 = length country_region" and "i < length iso2"
  shows "to_records nan_id iso2 country_region ! i = (py_key (nan_id i) (iso2 ! i), country_region ! i)"
  using assms by (simp add: to_records_def)

lemma length_to_records:
  "length iso2 = length country_region \<Longrightarrow> length (to_records nan_id iso2 country_region) = length iso2"
  by (simp add: to_records_def)

lemma py_key_StrKey: "py_key object_id c = StrKey s \<longleftrightarrow> c = StrC s"
  by (cases c) auto

text \<open>
  Claim C10 (as amended). For a table with the columns iso2 and Country_Region (of one
  length, as in every data frame), the function returns a dictionary with each key
  once. Its keys are the keys of the rows: the iso2 text of a row, or for a row whose
  iso2 is missing the \<^verbatim>\<open>nan\<close> object of that row. The value under a key is the
  Country_Region of the last row with that key: a later row with the same iso2 text
  overwrites an earlier one, while rows with a missing iso2 overwrite one another only
  when they hold the same \<^verbatim>\<open>nan\<close> object.
\<close>

theorem lookup_table_last_row_wins:
  assumes "map_of df ''iso2'' = Some iso2"
    and "map_of df ''Country_Region'' = Some country_region"
    and "length iso2 = length country_region"
  shows "\<exists>data. get_data_lookup_table nan_id df = Inr data
           \<and> fst ` set data = {py_key (nan_id i) (iso2 ! i) | i. i < length iso2}
           \<and> distinct (map fst data)
           \<and> (\<forall>k v. map_of data k = Some v \<longleftrightarrow>
                 (\<exists>i<length iso2. py_key (nan_id i) (iso2 ! i) = k \<and> country_region ! i = v
                     \<and> (\<forall>j. i < j \<and> j < length iso2 \<longrightarrow> py_key (nan_id j) (iso2 ! j) \<noteq> k)))
           \<and> (\<forall>s v. map_of data (StrKey s) = Some v \<longleftrightarrow>
                 (\<exists>i<length iso2. iso2 ! i = StrC s \<and> country_region ! i = v
                     \<and> (\<forall>j. i < j \<and> j < length iso2 \<longrightarrow> iso2 ! j \<noteq> StrC s)))"
proof -
  let ?rs = "to_records nan_id iso2 country_region"
  let ?data = "dict_of_records ?rs"
  let ?key = "\<lambda>i. py_key (nan_id i) (iso2 ! i)"
  have len: "length ?rs = length iso2" using assms(3) by (rule length_to_records)
  have nth: "?rs ! i = (?key i, country_region ! i)" if "i < length iso2" for i
    using assms(3) that by (rule to_records_nth)
  have ret: "get_data_lookup_table nan_id df = Inr ?data"
    using assms(1,2) by (simp add: get_data_lookup_table_def)
  have "fst ` set ?data = fst ` set ?rs"
    using keys_foldl_update [of "[]" ?rs] by (simp add: dict_of_records_def)
  also have "\<dots> = {?key i | i. i < length iso2}"
  proof -
    have "set ?rs = {?rs ! i | i. i < length ?rs}" by (rule set_conv_nth)
    also have "\<dots> = {(?key i, country_region ! i) | i. i < length iso2}"
    proof (rule Collect_cong)
      fix r
      show "(\<exists>i. r = ?rs ! i \<and> i < length ?rs)
              \<longleftrightarrow> (\<exists>i. r = (?key i, country_region ! i) \<and> i < length iso2)"
        using nth by (metis len)
    qed
    finally show ?thesis by force
  qed
  finally have keys: "fst ` set ?data = {?key i | i. i < length iso2}" .
  have dist: "distinct (map fst ?data)"
    unfolding dict_of_records_def by (rule distinct_foldl_update) simp
  have look: "map_of ?data k = Some v \<longleftrightarrow>
      (\<exists>i<length iso2. ?key i = k \<and> country_region ! i = v
          \<and> (\<forall>j. i < j \<and> j < length iso2 \<longrightarrow> ?key j \<noteq> k))" for k v
  proof -
    have "map_of ?data k = map_of (rev ?rs) k"
      by (simp add: dict_of_records_def map_of_foldl_update)
    also have "\<dots> = Some v \<longleftrightarrow>
        (\<exists>i<length ?rs. ?rs ! i = (k, v) \<and> (\<forall>j. i < j \<and> j < length ?rs \<longrightarrow> fst (?rs ! j) \<noteq> k))"
      by (rule map_of_rev_last)
    also have "\<dots> \<longleftrightarrow> (\<exists>i<length iso2. ?key i = k \<and> country_region ! i = v
          \<and> (\<forall>j. i < j \<and> j < length iso2 \<longrightarrow> ?key j \<noteq> k))"
      using nth by (auto simp: len)
    finally show ?thesis .
  qed
  have strs: "map_of ?data (StrKey s) = Some v \<longleftrightarrow>
      (\<exists>i<length iso2. iso2 ! i = StrC s \<and> country_region ! i = v
          \<and> (\<forall>j. i < j \<and> j < length iso2 \<longrightarrow> iso2 ! j \<noteq> StrC s))" for s v
    unfolding look [of "StrKey s" v] by (simp add: py_key_StrKey)
  from ret keys dist look strs show ?thesis by blast
qed

theorem lookup_table_last_row_wins_witness:
  "\<exists>data. get_data_lookup_table (\<lambda>i. i)
              [(''iso2'', [StrC ''AF'', StrC ''AL'', StrC ''AF'']),
               (''Country_Region'', [StrC ''Afghanistan'', StrC ''Albania'', StrC ''Kabul''])]
            = Inr data
      \<and> distinct (map fst data)
      \<and> map_of data (StrKey ''AF'') = Some (StrC ''Kabul'')"
proof -
  let ?iso2 = "[StrC ''AF'', StrC ''AL'', StrC ''AF'']"
  let ?cr = "[StrC ''Afghanistan'', StrC ''Albania'', StrC ''Kabul'']"
  let ?df = "[(''iso2'', ?iso2), (''Country_Region'', ?cr)]"
  have h1: "map_of ?df ''iso2'' = Some ?iso2" by simp
  have h2: "map_of ?df ''Country_Region'' = Some ?cr" by simp
  have h3: "length ?iso2 = length ?cr" by simp
  from lookup_table_last_row_wins [of ?df ?iso2 ?cr "\<lambda>i. i", OF h1 h2 h3] obtain data where
    r: "get_data_lookup_table (\<lambda>i. i) ?df = Inr data" and d: "distinct (map fst data)"
    and v: "\<forall>s v. map_of data (StrKey s) = Some v \<longleftrightarrow>
                 (\<exists>i<length ?iso2. ?iso2 ! i = StrC s \<and> ?cr ! i = v
                     \<and> (\<forall>j. i < j \<and> j < length ?iso2 \<longrightarrow> ?iso2 ! j \<noteq> StrC s))"
    by blast
  have "\<exists>i<length ?iso2. ?iso2 ! i = StrC ''AF'' \<and> ?cr ! i = StrC ''Kabul''
          \<and> (\<forall>j. i < j \<and> j < length ?iso2 \<longrightarrow> ?iso2 ! j \<noteq> StrC ''AF'')"
    by (rule exI [of _ 2]) simp
  with v have "map_of data (StrKey ''AF'') = Some (StrC ''Kabul'')" by blast
  with r d show ?thesis by blast
qed

text \<open>
  Claim C10 as stated fails: in a table whose iso2 column is all missing (a float64
  column, a new \<^verbatim>\<open>nan\<close> object for every row) two rows share the missing iso2 and
  yet each keeps its own key, the first row is not overwritten.
\<close>

theorem lookup_table_nan_counterexample:
  "get_data_lookup_table (\<lambda>i. i)
     [(''iso2'', [NaN, NaN]),
      (''Country_Region'', [StrC ''Diamond Princess'', StrC ''MS Zaandam''])]
   = Inr [(NanKey 0, StrC ''Diamond Princess''), (NanKey 1, StrC ''MS Zaandam'')]
   \<and> \<not> one_key_per_iso2_value [NaN, NaN]
          [(NanKey 0, StrC ''Diamond Princess''), (NanKey 1, StrC ''MS Zaandam'')]"
  by (simp add: get_data_lookup_table_def to_records_def dict_of_records_def
        one_key_per_iso2_value_def)

subsection \<open>Facts about strings\<close>

lemma split_not_Nil: "split sep s \<noteq> []"
  by (induction s) (auto split: list.splits)

lemma split_no_separator: "sep \<notin> set s \<Longrightarrow> split sep s = [s]"
  by (induction s) auto

lemma split_at_separator: "split sep (pre @ sep # post) = split sep pre @ split sep post"
proof (induction pre)
  case Nil
  show ?case by simp
next
  case (Cons c pre)
  obtain w ws where "split sep pre = w # ws"
    using split_not_Nil [of sep pre] by (cases "split sep pre") auto
  with Cons show ?case by simp
qed

lemma first_item_split:
  assumes "sep \<in> set s"
  shows "\<exists>w rest. first_item (split sep s) = Inr w \<and> s = w @ sep # rest \<and> sep \<notin> set w"
proof -
  from assms obtain w rest where s: "s = w @ sep # rest" and w: "sep \<notin> set w"
    by (auto dest: split_list_first)
  have "split sep s = w # split sep rest"
    by (simp add: s split_at_separator split_no_separator [OF w])
  then have "first_item (split sep s) = Inr w" by (simp add: first_item_def)
  with s w show ?thesis by blast
qed

lemma last_item_split:
  assumes "sep \<in> set s"
  shows "\<exists>w pre. last_item (split sep s) = Inr w \<and> s = pre @ sep # w \<and> sep \<notin> set w"
proof -
  from assms obtain pre w where s: "s = pre @ sep # w" and w: "sep \<notin> set w"
    by (auto dest: split_list_last)
  have "split sep s = split sep pre @ [w]"
    by (simp add: s split_at_separator split_no_separator [OF w])
  then have "last_item (split sep s) = Inr w" by (simp add: last_item_def)
  with s w show ?thesis by blast
qed

lemma str_in_iff: "str_in a b \<longleftrightarrow> (\<exists>p s. b = p @ a @ s)"
proof (induction b)
  case Nil
  show ?case by auto
next
  case (Cons c cs)
  show ?case
  proof
    assume "str_in a (c # cs)"
    then consider "prefix a (c # cs)" | "str_in a cs" by auto
    then show "\<exists>p s. c # cs = p @ a @ s"
    proof cases
      case 1
      then obtain s where "c # cs = a @ s" by (auto simp: prefix_def)
      then have "c # cs = [] @ a @ s" by simp
      then show ?thesis by blast
    next
      case 2
      with Cons obtain p s where "cs = p @ a @ s" by blast
      then have "c # cs = (c # p) @ a @ s" by simp
      then show ?thesis by blast
    qed
  next
    assume "\<exists>p s. c # cs = p @ a @ s"
    then obtain p s where ps: "c # cs = p @ a @ s" by blast
    show "str_in a (c # cs)"
    proof (cases p)
      case Nil
      with ps have "prefix a (c # cs)" by (simp add: prefix_def)
      then show ?thesis by simp
    next
      case (Cons c' p')
      with ps have "cs = p' @ a @ s" by simp
      with Cons.IH have "str_in a cs" by blast
      then show ?thesis by simp
    qed
  qed
qed

subsection \<open>The name a country code resolves to\<close>

text \<open>
  Claim C8. For every code the reference table knows (so for every two-character code
  outside us and uk that the routes pass on), \<^verbatim>\<open>lookup_country\<close> returns: the segment
  of the name before its first comma when the name has a comma; otherwise the segment
  after its last space when the name has a space; otherwise the name unchanged.
\<close>

theorem lookup_country_segment:
  assumes "countries_lookup code = Some name"
  shows "\<exists>r. lookup_country countries_lookup code = Inr r \<and>
           (if CHR '','' \<in> set name
            then (\<exists>rest. name = r @ CHR '','' # rest) \<and> CHR '','' \<notin> set r
            else if CHR '' '' \<in> set name
            then (\<exists>pre. name = pre @ CHR '' '' # r) \<and> CHR '' '' \<notin> set r
            else r = name)"
proof (cases "CHR '','' \<in> set name")
  case True
  from first_item_split [OF True] obtain w rest where
    "first_item (split CHR '','' name) = Inr w" "name = w @ CHR '','' # rest" "CHR '','' \<notin> set w"
    by blast
  with True assms show ?thesis by (auto simp: lookup_country_def)
next
  case False
  show ?thesis
  proof (cases "CHR '' '' \<in> set name")
    case True
    from last_item_split [OF True] obtain w pre where
      "last_item (split CHR '' '' name) = Inr w" "name = pre @ CHR '' '' # w" "CHR '' '' \<notin> set w"
      by blast
    with True False assms show ?thesis by (auto simp: lookup_country_def)
  next
    case no_space: False
    with False assms show ?thesis by (simp add: lookup_country_def)
  qed
qed

theorem lookup_country_segment_witness:
  "\<exists>r. lookup_country (\<lambda>c. if lower c = ''kr'' then Some ''Korea, Republic of'' else None) ''KR''
          = Inr r
        \<and> (\<exists>rest. ''Korea, Republic of'' = r @ CHR '','' # rest) \<and> CHR '','' \<notin> set r"
proof -
  let ?table = "\<lambda>c. if lower c = ''kr'' then Some ''Korea, Republic of'' else None"
  have h: "?table ''KR'' = Some ''Korea, Republic of''"
    by (simp add: lower_def lower_char_def)
  have c: "CHR '','' \<in> set ''Korea, Republic of''" by simp
  from lookup_country_segment [of ?table "''KR''" "''Korea, Republic of''", OF h]
  show ?thesis unfolding if_P [OF c] .
qed


subsection \<open>Facts about the country routes\<close>

lemma select_where_Some:
  "select_where cond items = Some r \<Longrightarrow> r = filter (\<lambda>i. cond i = Some True) items"
proof (induction items arbitrary: r)
  case Nil
  then show ?case by simp
next
  case (Cons i items)
  then show ?case by (auto split: option.splits if_splits)
qed

lemma location_lower_Some:
  "location_lower i = Some l \<Longrightarrow> \<exists>d s. i = PDict d \<and> map_of d ''location'' = Some (PStr s) \<and> l = lower s"
  by (auto simp: location_lower_def split: pyval.splits option.splits)

lemma country_by_name_without_match:
  assumes "\<not> (lower country_name \<notin> set [''us'', ''uk''] \<and> length country_name \<in> set [2])"
    and "\<forall>(k, v)\<in>set raw_data. lower country_name \<noteq> lower k"
    and "map_of raw_data ''dt'' = Some dt" and "map_of raw_data ''ts'' = Some ts"
  shows "country countries_lookup raw_data country_name = Inr [(''dt'', dt), (''ts'', ts)]"
proof -
  have "filter (\<lambda>(k, v). lower country_name = lower k) raw_data = []"
    using assms(2) by (auto simp: filter_empty_conv)
  moreover have "(if lower country_name \<notin> set [''us'', ''uk''] \<and> length country_name \<in> set [2]
      then x else y) = y" for x y :: "dict option"
    using assms(1) by (simp only: if_False)
  ultimately show ?thesis using assms(3,4) by (simp only: country_def Let_def) simp
qed

lemma select_where_first:
  assumes "select_where (\<lambda>i. map_option cond (location_lower i)) items = Some (first # rest)"
  shows "\<exists>pre post d s. items = pre @ PDict d # post \<and> first = PDict d
           \<and> map_of d ''location'' = Some (PStr s) \<and> cond (lower s)
           \<and> (\<forall>i\<in>set pre. \<forall>l. location_lower i = Some l \<longrightarrow> \<not> cond l)"
proof -
  let ?P = "\<lambda>i. map_option cond (location_lower i) = Some True"
  from select_where_Some [OF assms] have "filter ?P items = first # rest" by simp
  then obtain pre post where items: "items = pre @ first # post"
    and pre: "\<forall>u\<in>set pre. \<not> ?P u" and first: "?P first"
    by (auto simp: filter_eq_Cons_iff)
  from first obtain l where l: "location_lower first = Some l" and c: "cond l" by auto
  from location_lower_Some [OF l] obtain d s where
    d: "first = PDict d" "map_of d ''location'' = Some (PStr s)" "l = lower s" by blast
  have "\<forall>i\<in>set pre. \<forall>l. location_lower i = Some l \<longrightarrow> \<not> cond l"
    using pre by auto
  with items d c show ?thesis by blast
qed

subsection \<open>The response of the v2 country route\<close>

text \<open>
  Claim C2 (as amended). For every country query the v2 route answers, the \<^verbatim>\<open>data\<close>
  field of the response is a single record: the first record of the facade's data
  array whose location matches the query (it contains the resolved name for a
  two-letter code outside us and uk, it equals the query otherwise, both in lower
  case). That record carries a \<^verbatim>\<open>location\<close> field, and the rest of the facade's
  response is unchanged.
\<close>

theorem get_country_data_is_one_record:
  assumes "get_country countries_lookup raw_data country_name = Inr response"
  shows "\<exists>items pre record post loc matches.
           matches =
             (if lower country_name \<notin> set [''us'', ''uk''] \<and> length country_name \<in> set [2]
              then (case lookup_country countries_lookup country_name of
                      Inl e \<Rightarrow> (\<lambda>l. False)
                    | Inr name \<Rightarrow> str_in (lower name))
              else (\<lambda>l. lower country_name = l))
           \<and> map_of raw_data ''data'' = Some (PList items)
           \<and> items = pre @ PDict record # post
           \<and> map_of record ''location'' = Some (PStr loc) \<and> matches (lower loc)
           \<and> (\<forall>i\<in>set pre. \<forall>l. location_lower i = Some l \<longrightarrow> \<not> matches l)
           \<and> response = AList.update ''data'' (PDict record) raw_data
           \<and> map_of response ''data'' = Some (PDict record)"
proof -
  define matches where "matches =
             (if lower country_name \<notin> set [''us'', ''uk''] \<and> length country_name \<in> set [2]
              then (case lookup_country countries_lookup country_name of
                      Inl e \<Rightarrow> (\<lambda>l. False)
                    | Inr name \<Rightarrow> str_in (lower name))
              else (\<lambda>l. lower country_name = l))"
  from assms obtain items first rest where
    items: "map_of raw_data ''data'' = Some (PList items)"
    and sel: "select_where (\<lambda>i. map_option matches (location_lower i)) items = Some (first # rest)"
    and resp: "response = AList.update ''data'' first raw_data"
    unfolding matches_def
    by (auto simp: get_country_def Let_def
          split: if_splits sum.splits option.splits pyval.splits list.splits)
  from select_where_first [OF sel] obtain pre post d s where
    1: "items = pre @ PDict d # post" "first = PDict d" "map_of d ''location'' = Some (PStr s)"
       "matches (lower s)" "\<forall>i\<in>set pre. \<forall>l. location_lower i = Some l \<longrightarrow> \<not> matches l"
    by blast
  have "map_of response ''data'' = Some (PDict d)"
    by (simp add: resp 1(2) update_conv')
  with items 1 resp matches_def show ?thesis by blast
qed

theorem get_country_data_is_one_record_witness:
  "get_country (\<lambda>c. None)
     [(''data'', PList [PDict [(''location'', PStr ''Thailand''), (''confirmed'', PInt 1771)],
                        PDict [(''location'', PStr ''US''), (''confirmed'', PInt 213372)]]),
      (''dt'', PStr ''04-01-2020''), (''ts'', PInt 1585699200)]
     ''thailand''
   = Inr [(''data'', PDict [(''location'', PStr ''Thailand''), (''confirmed'', PInt 1771)]),
          (''dt'', PStr ''04-01-2020''), (''ts'', PInt 1585699200)]
   \<and> (\<exists>items pre record post loc.
         map_of [(''data'', PList [PDict [(''location'', PStr ''Thailand''), (''confirmed'', PInt 1771)],
                                   PDict [(''location'', PStr ''US''), (''confirmed'', PInt 213372)]]),
                 (''dt'', PStr ''04-01-2020''), (''ts'', PInt 1585699200)] ''data''
           = Some (PList items)
         \<and> items = pre @ PDict record # post \<and> map_of record ''location'' = Some (PStr loc))"
proof -
  let ?raw = "[(''data'', PList [PDict [(''location'', PStr ''Thailand''), (''confirmed'', PInt 1771)],
                        PDict [(''location'', PStr ''US''), (''confirmed'', PInt 213372)]]),
      (''dt'', PStr ''04-01-2020''), (''ts'', PInt 1585699200)]"
  let ?out = "[(''data'', PDict [(''location'', PStr ''Thailand''), (''confirmed'', PInt 1771)]),
          (''dt'', PStr ''04-01-2020''), (''ts'', PInt 1585699200)]"
  have h: "get_country (\<lambda>c. None) ?raw ''thailand'' = Inr ?out"
    by (simp add: get_country_def lower_def lower_char_def location_lower_def)
  from get_country_data_is_one_record [OF h] h show ?thesis by blast
qed

text \<open>
  Claim C2 as stated fails: the \<^verbatim>\<open>data\<close> field of the response is the record itself,
  not an array.
\<close>

theorem get_country_data_counterexample:
  "get_country (\<lambda>c. None)
     [(''data'', PList [PDict [(''location'', PStr ''Thailand''), (''confirmed'', PInt 1771)],
                        PDict [(''location'', PStr ''US''), (''confirmed'', PInt 213372)]]),
      (''dt'', PStr ''04-01-2020''), (''ts'', PInt 1585699200)]
     ''thailand''
   = Inr [(''data'', PDict [(''location'', PStr ''Thailand''), (''confirmed'', PInt 1771)]),
          (''dt'', PStr ''04-01-2020''), (''ts'', PInt 1585699200)]
   \<and> \<not> data_is_array_of_records
          [(''data'', PDict [(''location'', PStr ''Thailand''), (''confirmed'', PInt 1771)]),
           (''dt'', PStr ''04-01-2020''), (''ts'', PInt 1585699200)]"
  by (simp add: get_country_def lower_def lower_char_def location_lower_def
        data_is_array_of_records_def)

subsection \<open>Facts about one call of the cache wrapper\<close>





subsection \<open>The cache under serialized calls\<close>



subsection \<open>The routes: cases, facade exceptions and queries without a match\<close>




lemma facade_exception_raises_400_with_the_exception:
  "under_Exception e \<longrightarrow>
     (api_get_current api = Inl e \<longrightarrow> get_current api = Inl (HTTPException 400 (Object e)))
   \<and> (api_get_total api = Inl e \<longrightarrow> get_total api = Inl (HTTPException 400 (Object e)))
   \<and> (api_get_confirmed api = Inl e \<longrightarrow> get_confirmed api = Inl (HTTPException 400 (Object e)))
   \<and> (api_get_deaths api = Inl e \<longrightarrow> get_deaths api = Inl (HTTPException 400 (Object e)))
   \<and> (api_get_recovered api = Inl e \<longrightarrow> get_recovered api = Inl (HTTPException 400 (Object e)))
   \<and> (api_get_active api = Inl e \<longrightarrow> get_active api = Inl (HTTPException 400 (Object e)))"
  by (simp add: get_current_def get_total_def get_confirmed_def get_deaths_def
        get_recovered_def get_active_def)

lemma facade_exception_is_answered_500:
  "under_Exception e \<Longrightarrow> api_get_current api = Inl e \<Longrightarrow> http_status (get_current api) = 500"
  by (simp add: get_current_def http_status_def)

text \<open>
  Claim C9 at a failing input. When \<^verbatim>\<open>get_current()\<close> of the facade raises
  \<^verbatim>\<open>KeyError('Confirmed')\<close>, the handler of \<^verbatim>\<open>/v2/current\<close> raises an
  \<^verbatim>\<open>HTTPException\<close> of status 400 whose detail is the exception object and not its
  text; the object cannot be serialized, and the client receives status 500.
\<close>

theorem facade_exception_detail_is_the_object:
  "get_current
     \<lparr>api_get_current = Inl (KeyError ''Confirmed''), api_get_total = Inr PNone,
      api_get_confirmed = Inr PNone, api_get_deaths = Inr PNone,
      api_get_recovered = Inr PNone, api_get_active = Inr PNone,
      api_get_time_series = (\<lambda>c. Inr PNone)\<rparr>
     = Inl (HTTPException 400 (Object (KeyError ''Confirmed'')))
   \<and> \<not> fails_400_with_text
         (get_current
            \<lparr>api_get_current = Inl (KeyError ''Confirmed''), api_get_total = Inr PNone,
             api_get_confirmed = Inr PNone, api_get_deaths = Inr PNone,
             api_get_recovered = Inr PNone, api_get_active = Inr PNone,
             api_get_time_series = (\<lambda>c. Inr PNone)\<rparr>)
         (KeyError ''Confirmed'')
   \<and> http_status
         (get_current
            \<lparr>api_get_current = Inl (KeyError ''Confirmed''), api_get_total = Inr PNone,
             api_get_confirmed = Inr PNone, api_get_deaths = Inr PNone,
             api_get_recovered = Inr PNone, api_get_active = Inr PNone,
             api_get_time_series = (\<lambda>c. Inr PNone)\<rparr>) = 500"
  by (simp add: get_current_def fails_400_with_text_def http_status_def)

text \<open>
  Claim C1 at a failing input. A name that matches no key of the v1 facade's response
  gives, on the v1 route, a response of \<^verbatim>\<open>dt\<close> and \<^verbatim>\<open>ts\<close> alone and no 404; so does the
  code \<^verbatim>\<open>la\<close>, resolved to \<^verbatim>\<open>Republic\<close>. The v2 route answers 404 for the same
  queries.
\<close>

theorem country_without_match_is_not_404:
  "country (\<lambda>c. if c = ''la'' then Some ''Lao People's Democratic Republic'' else None)
     [(''Thailand'', PDict [(''confirmed'', PInt 1771)]), (''Laos'', PDict [(''confirmed'', PInt 10)]),
      (''dt'', PStr ''04-01-2020''), (''ts'', PInt 1585699200)]
     ''Atlantis''
   = Inr [(''dt'', PStr ''04-01-2020''), (''ts'', PInt 1585699200)]
   \<and> country (\<lambda>c. if c = ''la'' then Some ''Lao People's Democratic Republic'' else None)
     [(''Thailand'', PDict [(''confirmed'', PInt 1771)]), (''Laos'', PDict [(''confirmed'', PInt 10)]),
      (''dt'', PStr ''04-01-2020''), (''ts'', PInt 1585699200)]
     ''la''
   = Inr [(''dt'', PStr ''04-01-2020''), (''ts'', PInt 1585699200)]
   \<and> get_country (\<lambda>c. if c = ''la'' then Some ''Lao People's Democratic Republic'' else None)
     [(''data'', PList [PDict [(''location'', PStr ''Thailand''), (''confirmed'', PInt 1771)],
                        PDict [(''location'', PStr ''Laos''), (''confirmed'', PInt 10)]]),
      (''dt'', PStr ''04-01-2020''), (''ts'', PInt 1585699200)]
     ''Atlantis''
   = Inl (HTTPException 404 (Text ''Item not found''))
   \<and> get_country (\<lambda>c. if c = ''la'' then Some ''Lao People's Democratic Republic'' else None)
     [(''data'', PList [PDict [(''location'', PStr ''Thailand''), (''confirmed'', PInt 1771)],
                        PDict [(''location'', PStr ''Laos''), (''confirmed'', PInt 10)]]),
      (''dt'', PStr ''04-01-2020''), (''ts'', PInt 1585699200)]
     ''la''
   = Inl (HTTPException 404 (Text ''Item not found''))"
  by (simp add: country_def get_country_def lookup_country_def last_item_def first_item_def
        location_lower_def lower_def lower_char_def)

end
